theory Spec2Isabelle
  imports Complex_Main "HOL-Library.AList" "HOL-Library.Multiset"
begin

section \<open>Conventions\<close>

text \<open>
  The application computes with JavaScript numbers. Amounts of money are modelled as
  exact \<^typ>\<open>real\<close> numbers: rounding of binary floating point is outside this
  development, and every concrete amount used below is a whole number, on which the
  two agree. Identifiers (ObjectIds, month keys such as \<open>2025-10\<close>) are strings; a
  non-empty identifier is taken to be well formed, and a field of a request that is
  missing is the falsy value of its type. The store is used by one request at a time.
\<close>

type_synonym oid = string

section \<open>Allocation engine (client, FeePaymentsPage)\<close>

text \<open>The row of the student ledger that the page holds for each fee head.\<close>

record LedgerDue =
  feeHeadId :: oid
  name :: string
  due :: real
  paid :: real
  balance :: real

text \<open>One entry of a payment: \<open>{ feeHeadId, amountPaid }\<close>.\<close>

record PaymentItem =
  item_feeHeadId :: oid
  amountPaid :: real

record Allocation =
  items :: "PaymentItem list"
  remaining :: real

text \<open>
  The \<open>for (const due of dues)\<close> loop of \<open>allocatePayment\<close>, with the two mutable
  variables \<open>items\<close> and \<open>remainingAmount\<close> passed along. The first test is the
  \<open>break\<close>.
\<close>

fun allocate_loop :: "LedgerDue list \<Rightarrow> PaymentItem list \<Rightarrow> real \<Rightarrow> PaymentItem list \<times> real" where
  "allocate_loop [] its remainingAmount = (its, remainingAmount)"
| "allocate_loop (d # ds) its remainingAmount =
     (if remainingAmount \<le> 0 then (its, remainingAmount)
      else if balance d > 0 then
        (let amountToPayThisHead = min remainingAmount (balance d) in
         if amountToPayThisHead > 0 then
           allocate_loop ds
             (its @ [\<lparr>item_feeHeadId = feeHeadId d, amountPaid = amountToPayThisHead\<rparr>])
             (remainingAmount - amountToPayThisHead)
         else allocate_loop ds its remainingAmount)
      else allocate_loop ds its remainingAmount)"

definition allocatePayment :: "real \<Rightarrow> LedgerDue list \<Rightarrow> Allocation" where
  "allocatePayment amountToAllocate dues =
     (case allocate_loop dues [] amountToAllocate of
        (its, remainingAmount) \<Rightarrow> \<lparr>items = its, remaining = remainingAmount\<rparr>)"

subsection \<open>The algorithm as the specification words it\<close>



definition itemsTotal :: "PaymentItem list \<Rightarrow> real" where
  "itemsTotal its = sum_list (map amountPaid its)"

text \<open>
  The dues with a positive balance, in the caller's order, and the relation between an
  emitted item and the due it pays.
\<close>

definition positiveDues :: "LedgerDue list \<Rightarrow> LedgerDue list" where
  "positiveDues dues = filter (\<lambda>d. balance d > 0) dues"

definition paysDue :: "PaymentItem \<Rightarrow> LedgerDue \<Rightarrow> bool" where
  "paysDue i d \<longleftrightarrow> item_feeHeadId i = feeHeadId d \<and> amountPaid i \<le> balance d"


definition dueB50 :: LedgerDue where
  "dueB50 = \<lparr>feeHeadId = ''B'', name = ''Transport'', due = 50, paid = 0, balance = 50\<rparr>"

definition dueA50 :: LedgerDue where
  "dueA50 = \<lparr>feeHeadId = ''A'', name = ''Tuition Fee'', due = 50, paid = 0, balance = 50\<rparr>"

text \<open>A head that is already settled, and one that is overpaid.\<close>

definition dueC0 :: LedgerDue where
  "dueC0 = \<lparr>feeHeadId = ''C'', name = ''Admission'', due = 40, paid = 40, balance = 0\<rparr>"

definition dueD_over :: LedgerDue where
  "dueD_over = \<lparr>feeHeadId = ''D'', name = ''Exam Fee'', due = 10, paid = 25, balance = - 15\<rparr>"

section \<open>Server store (storage models)\<close>

text \<open>
  The collections of the store, each a list of documents in insertion order. Only the
  fields the routes below read or write are kept; the generated \<open>_id\<close> of a document is
  kept where another document refers to it, and the \<open>timestamps\<close> are left out.
\<close>

record School =
  sc_id :: oid
  sc_schoolName :: string
  sc_institutionType :: string
  sc_ownerUserId :: oid

record User =
  u_id :: oid
  u_schoolId :: oid
  u_email :: string
  u_password :: string
  u_fullName :: string
  u_role :: string
  u_refreshToken :: "string option"

record SchoolClass =
  c_schoolId :: oid
  c_name :: string
  c_section :: string

record Student =
  st_id :: oid
  st_schoolId :: oid
  st_classId :: oid
  st_fullName :: string

record AttendanceRow =
  at_schoolId :: oid
  at_studentId :: oid
  at_date :: int
  at_status :: string
  at_markedBy :: oid

record FeeHead =
  fh_id :: oid
  fh_schoolId :: oid
  fh_name :: string
  fh_isOneTime :: bool

record FeeStructure =
  fs_schoolId :: oid
  fs_classId :: oid
  fs_feeHeadId :: oid
  fs_amount :: real
  fs_monthYear :: string

record FeePayment =
  fp_schoolId :: oid
  fp_studentId :: oid
  fp_classId :: oid
  fp_monthYear :: string
  fp_paymentDate :: int
  fp_receivedBy :: oid
  fp_items :: "PaymentItem list"
  fp_totalAmountPaid :: real
  fp_remarks :: "string option"

record GradeRow =
  g_schoolId :: oid
  g_studentId :: oid
  g_classId :: oid
  g_examId :: oid
  g_subject :: string
  g_totalMarks :: real
  g_obtainedMarks :: real
  g_remarks :: string

record DB =
  schools :: "School list"
  users :: "User list"
  schoolClasses :: "SchoolClass list"
  students :: "Student list"
  attendances :: "AttendanceRow list"
  feeHeads :: "FeeHead list"
  feeStructures :: "FeeStructure list"
  feePayments :: "FeePayment list"
  grades :: "GradeRow list"

text \<open>A failed request: the HTTP status and the \<open>message\<close> of the JSON body.\<close>

datatype http_error = HttpError nat string

text \<open>
  \<open>updateOne\<close> / \<open>findOneAndUpdate\<close> with \<open>upsert: true\<close>: the first document that
  matches the filter is updated in place; when none matches, the document built from the
  filter and the \<open>$set\<close> is inserted.
\<close>

fun upsertOne :: "('r \<Rightarrow> bool) \<Rightarrow> ('r \<Rightarrow> 'r) \<Rightarrow> 'r \<Rightarrow> 'r list \<Rightarrow> 'r list" where
  "upsertOne matches upd new [] = [new]"
| "upsertOne matches upd new (r # rs) =
     (if matches r then upd r # rs else r # upsertOne matches upd new rs)"

section \<open>Student ledger (GET /reports/student-ledger)\<close>













subsection \<open>The ledger as the specification defines it\<close>







text \<open>
  The uniqueness constraint of \<open>FeeStructureSchema.index\<close> on
  (schoolId, classId, feeHeadId, monthYear), and the store condition that every item of
  a recorded payment refers to a fee head that exists.
\<close>

definition fsKey :: "FeeStructure \<Rightarrow> oid \<times> oid \<times> oid \<times> string" where
  "fsKey s = (fs_schoolId s, fs_classId s, fs_feeHeadId s, fs_monthYear s)"

definition feeStructuresUnique :: "DB \<Rightarrow> bool" where
  "feeStructuresUnique db \<longleftrightarrow> distinct (map fsKey (feeStructures db))"


section \<open>Recording a payment (POST /fees/payments)\<close>



section \<open>Example store\<close>


definition ex_student :: Student where
  "ex_student = \<lparr>st_id = ''s1'', st_schoolId = ''T'', st_classId = ''c1'', st_fullName = ''Ali''\<rparr>"

definition ex_db :: DB where
  "ex_db = \<lparr>schools = [], users = [], schoolClasses = [],
     students = [ex_student],
     attendances = [],
     feeHeads = [\<lparr>fh_id = ''A'', fh_schoolId = ''T'', fh_name = ''Tuition Fee'', fh_isOneTime = False\<rparr>,
                 \<lparr>fh_id = ''B'', fh_schoolId = ''T'', fh_name = ''Transport'', fh_isOneTime = False\<rparr>],
     feeStructures =
       [\<lparr>fs_schoolId = ''T'', fs_classId = ''c1'', fs_feeHeadId = ''A'', fs_amount = 100,
         fs_monthYear = ''2025-10''\<rparr>,
        \<lparr>fs_schoolId = ''T'', fs_classId = ''c1'', fs_feeHeadId = ''B'', fs_amount = 50,
         fs_monthYear = ''2025-10''\<rparr>],
     feePayments = [], grades = []\<rparr>"




section \<open>Payment page (client, onSubmit of FeePaymentsPage)\<close>










section \<open>Fee structures (POST /fees/structures)\<close>

text \<open>
  The request body; \<open>fr_amount\<close> is \<open>None\<close> for \<open>null\<close> or a missing field. An amount
  that is not a number has no value in this type.
\<close>

record FeeStructureRequest =
  fr_classId :: oid
  fr_feeHeadId :: oid
  fr_amount :: "real option"
  fr_monthYear :: string

text \<open>
  \<open>findOneAndUpdate(filter, { $set }, { new: true, upsert: true })\<close>: as \<open>upsertOne\<close>, and
  returning the document after the update.
\<close>

fun findOneAndUpdate :: "('r \<Rightarrow> bool) \<Rightarrow> ('r \<Rightarrow> 'r) \<Rightarrow> 'r \<Rightarrow> 'r list \<Rightarrow> 'r \<times> 'r list" where
  "findOneAndUpdate matches upd new [] = (new, [new])"
| "findOneAndUpdate matches upd new (r # rs) =
     (if matches r then (upd r, upd r # rs)
      else case findOneAndUpdate matches upd new rs of (doc, rs') \<Rightarrow> (doc, r # rs'))"

definition setFeeStructure ::
  "oid \<Rightarrow> FeeStructureRequest \<Rightarrow> DB \<Rightarrow> (http_error + FeeStructure) \<times> DB" where
  "setFeeStructure schoolId rq db =
     (case fr_amount rq of
        None \<Rightarrow> (Inl (HttpError 400 ''Class, Fee Head, Amount, and MonthYear are required.''), db)
      | Some amount \<Rightarrow>
          if fr_classId rq = [] \<or> fr_feeHeadId rq = [] \<or> fr_monthYear rq = [] then
            (Inl (HttpError 400 ''Class, Fee Head, Amount, and MonthYear are required.''), db)
          else if amount < 0 then
            (Inl (HttpError 400 ''Amount must be a non-negative number.''), db)
          else
            (case findOneAndUpdate
                (\<lambda>s. fs_schoolId s = schoolId \<and> fs_classId s = fr_classId rq
                      \<and> fs_feeHeadId s = fr_feeHeadId rq \<and> fs_monthYear s = fr_monthYear rq)
                (\<lambda>s. s\<lparr>fs_amount := amount, fs_schoolId := schoolId,
                        fs_classId := fr_classId rq, fs_feeHeadId := fr_feeHeadId rq,
                        fs_monthYear := fr_monthYear rq\<rparr>)
                \<lparr>fs_schoolId = schoolId, fs_classId = fr_classId rq,
                 fs_feeHeadId = fr_feeHeadId rq, fs_amount = amount,
                 fs_monthYear = fr_monthYear rq\<rparr>
                (feeStructures db) of
               (structure, rows) \<Rightarrow> (Inr structure, db\<lparr>feeStructures := rows\<rparr>)))"

text \<open>The rows of the store under one compound key.\<close>

definition structuresFor :: "DB \<Rightarrow> oid \<times> oid \<times> oid \<times> string \<Rightarrow> FeeStructure list" where
  "structuresFor db k = filter (\<lambda>s. fsKey s = k) (feeStructures db)"

definition structureRequest :: "oid \<Rightarrow> oid \<Rightarrow> string \<Rightarrow> real \<Rightarrow> FeeStructureRequest" where
  "structureRequest classId hid monthYear amount =
     \<lparr>fr_classId = classId, fr_feeHeadId = hid, fr_amount = Some amount,
      fr_monthYear = monthYear\<rparr>"

section \<open>Bulk attendance (POST /attendance)\<close>

text \<open>
  One element of the request array. \<open>ar_date\<close> is the time, in milliseconds since the
  epoch, that \<open>new Date(record.date)\<close> denotes, and \<open>None\<close> when the field is missing
  (a date that does not parse has no value in this type); a missing \<open>studentId\<close> or
  \<open>status\<close> is the empty string.
\<close>

record AttendanceRecord =
  ar_studentId :: oid
  ar_date :: "int option"
  ar_status :: string

text \<open>\<open>setUTCHours(0, 0, 0, 0)\<close>.\<close>

definition utcMidnight :: "int \<Rightarrow> int" where
  "utcMidnight t = t - t mod 86400000"

text \<open>An \<open>updateOne\<close> operation: its filter (\<open>af_\<close>) and its \<open>$set\<close> (\<open>as_\<close>).\<close>

record AttendanceOp =
  af_schoolId :: oid
  af_studentId :: oid
  af_date :: int
  as_status :: string
  as_schoolId :: oid
  as_studentId :: oid
  as_markedBy :: oid

definition missingAttendanceField :: "AttendanceRecord \<Rightarrow> bool" where
  "missingAttendanceField r \<longleftrightarrow> ar_studentId r = [] \<or> ar_date r = None \<or> ar_status r = []"

text \<open>
  \<open>attendanceDataArray.map(...)\<close>: the operations in order, or the message of the
  \<open>Error\<close> thrown at the first record with a missing field.
\<close>

fun attendanceOperations :: "oid \<Rightarrow> oid \<Rightarrow> AttendanceRecord list \<Rightarrow> string + AttendanceOp list" where
  "attendanceOperations schoolId userId [] = Inr []"
| "attendanceOperations schoolId userId (r # rs) =
     (if missingAttendanceField r then
        Inl ''Each record must include studentId, date, and status.''
      else
        (case attendanceOperations schoolId userId rs of
           Inl e \<Rightarrow> Inl e
         | Inr ops \<Rightarrow>
             Inr (\<lparr>af_schoolId = schoolId, af_studentId = ar_studentId r,
                   af_date = utcMidnight (case ar_date r of None \<Rightarrow> 0 | Some t \<Rightarrow> t),
                   as_status = ar_status r, as_schoolId = schoolId,
                   as_studentId = ar_studentId r, as_markedBy = userId\<rparr> # ops)))"

definition applyAttendanceOp :: "AttendanceOp \<Rightarrow> AttendanceRow list \<Rightarrow> AttendanceRow list" where
  "applyAttendanceOp op rows =
     upsertOne
       (\<lambda>r. at_schoolId r = af_schoolId op \<and> at_studentId r = af_studentId op
             \<and> at_date r = af_date op)
       (\<lambda>r. r\<lparr>at_status := as_status op, at_schoolId := as_schoolId op,
               at_studentId := as_studentId op, at_markedBy := as_markedBy op\<rparr>)
       \<lparr>at_schoolId = as_schoolId op, at_studentId = as_studentId op, at_date = af_date op,
        at_status = as_status op, at_markedBy = as_markedBy op\<rparr>
       rows"

text \<open>
  \<open>Attendance.bulkWrite(operations)\<close>, in order. The filter of each operation is the
  unique index of the collection, so no insert of an upsert can violate it.
\<close>

definition attendanceBulkWrite :: "AttendanceOp list \<Rightarrow> AttendanceRow list \<Rightarrow> AttendanceRow list" where
  "attendanceBulkWrite ops rows = fold applyAttendanceOp ops rows"

definition postAttendance ::
  "oid \<Rightarrow> oid \<Rightarrow> AttendanceRecord list \<Rightarrow> DB \<Rightarrow> (http_error + string) \<times> DB" where
  "postAttendance schoolId userId attendanceDataArray db =
     (if attendanceDataArray = [] then
        (Inl (HttpError 400 ''Attendance data must be a non-empty array.''), db)
      else case attendanceOperations schoolId userId attendanceDataArray of
        Inl e \<Rightarrow> (Inl (HttpError 500 ''Server error recording attendance.''), db)
      | Inr ops \<Rightarrow>
          (Inr ''Attendance recorded successfully.'',
           db\<lparr>attendances := attendanceBulkWrite ops (attendances db)\<rparr>))"





section \<open>Bulk grades (POST /grades/bulk)\<close>

text \<open>
  One element of the request array; \<open>None\<close> is a field that is \<open>null\<close> or missing, and a
  missing identifier or subject is the empty string.
\<close>

record GradeRecord =
  gr_studentId :: oid
  gr_classId :: oid
  gr_examId :: oid
  gr_subject :: string
  gr_obtainedMarks :: "real option"
  gr_totalMarks :: "real option"
  gr_remarks :: "string option"

record GradeOp =
  gf_schoolId :: oid
  gf_studentId :: oid
  gf_examId :: oid
  gf_subject :: string
  gs_classId :: oid
  gs_totalMarks :: real
  gs_obtainedMarks :: real
  gs_remarks :: string

definition missingGradeField :: "GradeRecord \<Rightarrow> bool" where
  "missingGradeField g \<longleftrightarrow>
     gr_studentId g = [] \<or> gr_classId g = [] \<or> gr_examId g = [] \<or> gr_subject g = []
     \<or> gr_obtainedMarks g = None"

text \<open>\<open>grade.totalMarks || 100\<close> and \<open>grade.remarks || ""\<close> are the two defaults.\<close>

definition gradeOperation :: "oid \<Rightarrow> GradeRecord \<Rightarrow> GradeOp" where
  "gradeOperation schoolId g =
     \<lparr>gf_schoolId = schoolId, gf_studentId = gr_studentId g, gf_examId = gr_examId g,
      gf_subject = gr_subject g, gs_classId = gr_classId g,
      gs_totalMarks = (case gr_totalMarks g of None \<Rightarrow> 100 | Some t \<Rightarrow> if t = 0 then 100 else t),
      gs_obtainedMarks = (case gr_obtainedMarks g of None \<Rightarrow> 0 | Some m \<Rightarrow> m),
      gs_remarks = (case gr_remarks g of None \<Rightarrow> [] | Some s \<Rightarrow> s)\<rparr>"

fun gradeOperations :: "oid \<Rightarrow> GradeRecord list \<Rightarrow> string + GradeOp list" where
  "gradeOperations schoolId [] = Inr []"
| "gradeOperations schoolId (g # gs) =
     (if missingGradeField g then
        Inl ''Each grade entry must have studentId, classId, examId, subject, and obtainedMarks.''
      else
        (case gradeOperations schoolId gs of
           Inl e \<Rightarrow> Inl e
         | Inr ops \<Rightarrow> Inr (gradeOperation schoolId g # ops)))"

definition gradeMatches :: "GradeOp \<Rightarrow> GradeRow \<Rightarrow> bool" where
  "gradeMatches op r \<longleftrightarrow>
     g_schoolId r = gf_schoolId op \<and> g_studentId r = gf_studentId op
     \<and> g_examId r = gf_examId op \<and> g_subject r = gf_subject op"

definition applyGradeOp :: "GradeOp \<Rightarrow> GradeRow list \<Rightarrow> GradeRow list" where
  "applyGradeOp op rows =
     upsertOne (gradeMatches op)
       (\<lambda>r. r\<lparr>g_classId := gs_classId op, g_totalMarks := gs_totalMarks op,
               g_obtainedMarks := gs_obtainedMarks op, g_remarks := gs_remarks op\<rparr>)
       \<lparr>g_schoolId = gf_schoolId op, g_studentId = gf_studentId op, g_classId = gs_classId op,
        g_examId = gf_examId op, g_subject = gf_subject op, g_totalMarks = gs_totalMarks op,
        g_obtainedMarks = gs_obtainedMarks op, g_remarks = gs_remarks op\<rparr>
       rows"

text \<open>
  \<open>Grade.bulkWrite(operations)\<close>, in order. The unique index of the collection is
  (studentId, examId, subject), without the tenant of the filter: an upsert that finds no
  row of its tenant but a row of the same student, exam and subject fails on insert with
  a duplicate key error; the writes before it stay, the rest is not run. The result is
  whether all operations ran, and the rows.
\<close>

fun gradeBulkWrite :: "GradeOp list \<Rightarrow> GradeRow list \<Rightarrow> bool \<times> GradeRow list" where
  "gradeBulkWrite [] rows = (True, rows)"
| "gradeBulkWrite (op # ops) rows =
     (if \<not> list_ex (gradeMatches op) rows
         \<and> list_ex (\<lambda>r. g_studentId r = gf_studentId op \<and> g_examId r = gf_examId op
                         \<and> g_subject r = gf_subject op) rows
      then (False, rows)
      else gradeBulkWrite ops (applyGradeOp op rows))"

text \<open>
  The thrown validation message contains \<open>must have studentId\<close>, for which the handler
  answers 400 with the message; any other failure is answered 500.
\<close>

definition postGradesBulk ::
  "oid \<Rightarrow> GradeRecord list \<Rightarrow> DB \<Rightarrow> (http_error + string) \<times> DB" where
  "postGradesBulk schoolId gradesData db =
     (if gradesData = [] then
        (Inl (HttpError 400 ''A non-empty array of grades is required.''), db)
      else case gradeOperations schoolId gradesData of
        Inl e \<Rightarrow> (Inl (HttpError 400 e), db)
      | Inr ops \<Rightarrow>
          (case gradeBulkWrite ops (grades db) of
             (True, rows) \<Rightarrow> (Inr ''Grades saved successfully.'', db\<lparr>grades := rows\<rparr>)
           | (False, rows) \<Rightarrow>
               (Inl (HttpError 500 ''Server error saving grades.''), db\<lparr>grades := rows\<rparr>)))"

definition gradeKey :: "GradeRow \<Rightarrow> oid \<times> oid \<times> oid \<times> string" where
  "gradeKey r = (g_schoolId r, g_studentId r, g_examId r, g_subject r)"

definition gradeRecordKey :: "oid \<Rightarrow> GradeRecord \<Rightarrow> oid \<times> oid \<times> oid \<times> string" where
  "gradeRecordKey schoolId g = (schoolId, gr_studentId g, gr_examId g, gr_subject g)"

text \<open>A batch of attendance records and a batch of grades for the example tenant.\<close>

definition ex_attendance :: "AttendanceRecord list" where
  "ex_attendance =
     [\<lparr>ar_studentId = ''s1'', ar_date = Some 1759485600000, ar_status = ''Present''\<rparr>,
      \<lparr>ar_studentId = ''s2'', ar_date = Some 1759485600000, ar_status = ''Absent''\<rparr>]"

definition ex_grades :: "GradeRecord list" where
  "ex_grades =
     [\<lparr>gr_studentId = ''s1'', gr_classId = ''c1'', gr_examId = ''e1'', gr_subject = ''Maths'',
       gr_obtainedMarks = Some 40, gr_totalMarks = Some 0, gr_remarks = None\<rparr>,
      \<lparr>gr_studentId = ''s1'', gr_classId = ''c1'', gr_examId = ''e1'', gr_subject = ''English'',
       gr_obtainedMarks = Some 35, gr_totalMarks = Some 50, gr_remarks = None\<rparr>,
      \<lparr>gr_studentId = ''s2'', gr_classId = ''c1'', gr_examId = ''e1'', gr_subject = ''Maths'',
       gr_obtainedMarks = Some 71, gr_totalMarks = None, gr_remarks = Some ''Good''\<rparr>]"

text \<open>The row that an operation on grades inserts, and leaves behind when it updates.\<close>

definition gradeRowOf :: "GradeOp \<Rightarrow> GradeRow" where
  "gradeRowOf op =
     \<lparr>g_schoolId = gf_schoolId op, g_studentId = gf_studentId op, g_classId = gs_classId op,
      g_examId = gf_examId op, g_subject = gf_subject op, g_totalMarks = gs_totalMarks op,
      g_obtainedMarks = gs_obtainedMarks op, g_remarks = gs_remarks op\<rparr>"



section \<open>Tenant registration (POST /auth/register)\<close>



























section \<open>Properties of the allocation engine\<close>




lemma itemsTotal_append: "itemsTotal (xs @ ys) = itemsTotal xs + itemsTotal ys"
  by (simp add: itemsTotal_def)





lemma allocate_loop_items_positive:
  "\<forall>i \<in> set acc. 0 < amountPaid i \<Longrightarrow> \<forall>i \<in> set (fst (allocate_loop ds acc r)). 0 < amountPaid i"
proof (induction ds arbitrary: acc r)
  case Nil
  then show ?case by simp
next
  case (Cons d ds)
  show ?case
  proof (cases "0 < r \<and> 0 < balance d")
    case True
    let ?acc = "acc @ [\<lparr>item_feeHeadId = feeHeadId d, amountPaid = min r (balance d)\<rparr>]"
    from True Cons.prems have "\<forall>i \<in> set ?acc. 0 < amountPaid i" by simp
    from Cons.IH [OF this] True show ?thesis by (simp add: Let_def)
  next
    case False
    with Cons.IH [OF Cons.prems] Cons.prems show ?thesis by auto
  qed
qed

lemma allocate_loop_pairs:
  "list_all2 paysDue acc ps \<Longrightarrow>
   \<exists>n. list_all2 paysDue (fst (allocate_loop ds acc r)) (ps @ take n (positiveDues ds))"
proof (induction ds arbitrary: acc ps r)
  case Nil
  then show ?case by (simp add: positiveDues_def)
next
  case (Cons d ds)
  show ?case
  proof (cases "r \<le> 0")
    case True
    with Cons.prems have "list_all2 paysDue (fst (allocate_loop (d # ds) acc r))
       (ps @ take 0 (positiveDues (d # ds)))" by simp
    then show ?thesis by blast
  next
    case False
    show ?thesis
    proof (cases "balance d > 0")
      case True
      let ?acc = "acc @ [\<lparr>item_feeHeadId = feeHeadId d, amountPaid = min r (balance d)\<rparr>]"
      have "paysDue \<lparr>item_feeHeadId = feeHeadId d, amountPaid = min r (balance d)\<rparr> d"
        by (simp add: paysDue_def)
      with Cons.prems have "list_all2 paysDue ?acc (ps @ [d])"
        by (simp add: list_all2_appendI)
      from Cons.IH [OF this, of "r - min r (balance d)"] obtain n where
        "list_all2 paysDue (fst (allocate_loop ds ?acc (r - min r (balance d))))
           ((ps @ [d]) @ take n (positiveDues ds))" by blast
      with True False have "list_all2 paysDue (fst (allocate_loop (d # ds) acc r))
         (ps @ take (Suc n) (positiveDues (d # ds)))"
        by (simp add: Let_def positiveDues_def)
      then show ?thesis by blast
    next
      case False
      from Cons.IH [OF Cons.prems, of r] obtain n where
        "list_all2 paysDue (fst (allocate_loop ds acc r)) (ps @ take n (positiveDues ds))" by blast
      with False \<open>\<not> r \<le> 0\<close> have "list_all2 paysDue (fst (allocate_loop (d # ds) acc r))
         (ps @ take n (positiveDues (d # ds)))"
        by (simp add: positiveDues_def)
      then show ?thesis by blast
    qed
  qed
qed

lemma allocate_loop_prefix:
  "list_all2 paysDue (fst (allocate_loop ds [] r))
     (take (length (fst (allocate_loop ds [] r))) (positiveDues ds))"
proof -
  from allocate_loop_pairs [of "[]" "[]" ds r] obtain n where
    n: "list_all2 paysDue (fst (allocate_loop ds [] r)) (take n (positiveDues ds))" by auto
  then have "length (fst (allocate_loop ds [] r)) = length (take n (positiveDues ds))"
    by (rule list_all2_lengthD)
  then have "take (length (fst (allocate_loop ds [] r))) (positiveDues ds) = take n (positiveDues ds)"
    by (simp add: min_def)
  with n show ?thesis by simp
qed




text \<open>
  C3. Whatever the amount and the dues, every emitted item has a positive amount, and
  the items are, in order and one for one, payments of the first dues that have a
  positive balance (each for the head of its due and at most its balance): a due whose
  balance is zero or negative gets no item.
\<close>

theorem allocatePayment_items_positive:
  "(\<forall>i \<in> set (items (allocatePayment amount dues)). 0 < amountPaid i)
   \<and> list_all2 paysDue (items (allocatePayment amount dues))
        (take (length (items (allocatePayment amount dues))) (positiveDues dues))
   \<and> (\<forall>d \<in> set (positiveDues dues). d \<in> set dues \<and> 0 < balance d)"
proof -
  obtain its r where lp: "allocate_loop dues [] amount = (its, r)"
    by (cases "allocate_loop dues [] amount")
  then have res: "items (allocatePayment amount dues) = its"
    by (simp add: allocatePayment_def)
  from allocate_loop_items_positive [of "[]" dues amount] lp
  have "\<forall>i \<in> set its. 0 < amountPaid i" by simp
  moreover from allocate_loop_prefix [of dues amount] lp
  have "list_all2 paysDue its (take (length its) (positiveDues dues))" by simp
  moreover have "\<forall>d \<in> set (positiveDues dues). d \<in> set dues \<and> 0 < balance d"
    by (simp add: positiveDues_def)
  ultimately show ?thesis unfolding res by blast
qed

theorem allocatePayment_items_positive_witness:
  "items (allocatePayment 60 [dueC0, dueA50, dueD_over, dueB50]) =
     [\<lparr>item_feeHeadId = ''A'', amountPaid = 50\<rparr>, \<lparr>item_feeHeadId = ''B'', amountPaid = 10\<rparr>]
   \<and> positiveDues [dueC0, dueA50, dueD_over, dueB50] = [dueA50, dueB50]
   \<and> list_all (\<lambda>i. 0 < amountPaid i)
        (items (allocatePayment 60 [dueC0, dueA50, dueD_over, dueB50]))
   \<and> list_all2 paysDue (items (allocatePayment 60 [dueC0, dueA50, dueD_over, dueB50]))
        [dueA50, dueB50]"
proof -
  have its: "items (allocatePayment 60 [dueC0, dueA50, dueD_over, dueB50]) =
     [\<lparr>item_feeHeadId = ''A'', amountPaid = 50\<rparr>, \<lparr>item_feeHeadId = ''B'', amountPaid = 10\<rparr>]"
    by (simp add: allocatePayment_def dueC0_def dueA50_def dueD_over_def dueB50_def)
  have pd: "positiveDues [dueC0, dueA50, dueD_over, dueB50] = [dueA50, dueB50]"
    by (simp add: positiveDues_def dueC0_def dueA50_def dueD_over_def dueB50_def)
  from allocatePayment_items_positive [of 60 "[dueC0, dueA50, dueD_over, dueB50]"]
  have "(\<forall>i \<in> set (items (allocatePayment 60 [dueC0, dueA50, dueD_over, dueB50])).
         0 < amountPaid i)"
    and "list_all2 paysDue (items (allocatePayment 60 [dueC0, dueA50, dueD_over, dueB50]))
        (take (length (items (allocatePayment 60 [dueC0, dueA50, dueD_over, dueB50])))
           (positiveDues [dueC0, dueA50, dueD_over, dueB50]))"
    by blast+
  with its pd show ?thesis by (simp add: list_all_iff)
qed

section \<open>Properties of the student ledger\<close>



















section \<open>Properties of payment recording\<close>




section \<open>Properties of upserts and of fee structures\<close>

lemma findOneAndUpdate_snd:
  "snd (findOneAndUpdate matches upd new rows) = upsertOne matches upd new rows"
  by (induction rows) (auto split: prod.splits)

lemma findOneAndUpdate_fst:
  "\<forall>r. matches r \<longrightarrow> upd r = new \<Longrightarrow> fst (findOneAndUpdate matches upd new rows) = new"
  by (induction rows) (auto split: prod.splits)

lemma upsertOne_keys:
  assumes "key new = k" and "\<forall>r. key r = k \<longrightarrow> upd r = new"
  shows "map key (upsertOne (\<lambda>r. key r = k) upd new rows) =
     (if k \<in> set (map key rows) then map key rows else map key rows @ [k])"
  using assms by (induction rows) auto

lemma upsertOne_distinct:
  assumes "key new = k" and "\<forall>r. key r = k \<longrightarrow> upd r = new" and "distinct (map key rows)"
  shows "distinct (map key (upsertOne (\<lambda>r. key r = k) upd new rows))"
  using assms(3) by (simp add: upsertOne_keys [OF assms(1,2)])

lemma upsertOne_rows_for_key:
  assumes "key new = k" and "\<forall>r. key r = k \<longrightarrow> upd r = new" and "distinct (map key rows)"
  shows "filter (\<lambda>r. key r = k) (upsertOne (\<lambda>r. key r = k) upd new rows) = [new]"
  using assms
proof (induction rows)
  case Nil
  then show ?case by simp
next
  case (Cons r rs)
  show ?case
  proof (cases "key r = k")
    case True
    with Cons.prems have "k \<notin> key ` set rs" by simp
    then have "\<forall>x \<in> set rs. key x \<noteq> k" by blast
    then have "filter (\<lambda>r. key r = k) rs = []" by (simp add: filter_empty_conv)
    with True Cons.prems show ?thesis by simp
  next
    case False
    with Cons show ?thesis by simp
  qed
qed

lemma upsertOne_other_key:
  assumes "key new = k" and "\<forall>r. key r = k \<longrightarrow> upd r = new" and "k' \<noteq> k"
  shows "filter (\<lambda>r. key r = k') (upsertOne (\<lambda>r. key r = k) upd new rows)
       = filter (\<lambda>r. key r = k') rows"
  using assms by (induction rows) auto

lemma upsertOne_idem:
  assumes "matches new" and "\<forall>r. matches r \<longrightarrow> upd r = new"
  shows "upsertOne matches upd new (upsertOne matches upd new rows) = upsertOne matches upd new rows"
  using assms by (induction rows) auto


lemma fs_update_all:
  "(s :: FeeStructure)\<lparr>fs_amount := a, fs_schoolId := sid, fs_classId := cid, fs_feeHeadId := hid,
      fs_monthYear := my\<rparr>
   = \<lparr>fs_schoolId = sid, fs_classId = cid, fs_feeHeadId = hid, fs_amount = a, fs_monthYear = my\<rparr>"
  by simp

lemma setFeeStructure_valid:
  assumes "classId \<noteq> []" "hid \<noteq> []" "monthYear \<noteq> []" "0 \<le> a"
  shows "setFeeStructure schoolId (structureRequest classId hid monthYear a) db =
     (Inr \<lparr>fs_schoolId = schoolId, fs_classId = classId, fs_feeHeadId = hid, fs_amount = a,
           fs_monthYear = monthYear\<rparr>,
      db\<lparr>feeStructures :=
           upsertOne (\<lambda>s. fsKey s = (schoolId, classId, hid, monthYear))
             (\<lambda>s. \<lparr>fs_schoolId = schoolId, fs_classId = classId, fs_feeHeadId = hid,
                    fs_amount = a, fs_monthYear = monthYear\<rparr>)
             \<lparr>fs_schoolId = schoolId, fs_classId = classId, fs_feeHeadId = hid, fs_amount = a,
              fs_monthYear = monthYear\<rparr>
             (feeStructures db)\<rparr>)"
proof -
  let ?new = "\<lparr>fs_schoolId = schoolId, fs_classId = classId, fs_feeHeadId = hid, fs_amount = a,
              fs_monthYear = monthYear\<rparr>"
  let ?m = "\<lambda>s. fs_schoolId s = schoolId \<and> fs_classId s = classId
                      \<and> fs_feeHeadId s = hid \<and> fs_monthYear s = monthYear"
  have m: "?m = (\<lambda>s. fsKey s = (schoolId, classId, hid, monthYear))"
    by (auto simp: fsKey_def)
  obtain doc rows where f: "findOneAndUpdate ?m (\<lambda>s. ?new) ?new (feeStructures db) = (doc, rows)"
    by (cases "findOneAndUpdate ?m (\<lambda>s. ?new) ?new (feeStructures db)")
  from f findOneAndUpdate_fst [of ?m "\<lambda>s. ?new" ?new "feeStructures db"] have "doc = ?new" by simp
  moreover from f findOneAndUpdate_snd [of ?m "\<lambda>s. ?new" ?new "feeStructures db"]
  have "rows = upsertOne ?m (\<lambda>s. ?new) ?new (feeStructures db)" by simp
  moreover have "(\<lambda>s :: FeeStructure. s\<lparr>fs_amount := a, fs_schoolId := schoolId,
       fs_classId := classId, fs_feeHeadId := hid, fs_monthYear := monthYear\<rparr>) = (\<lambda>s. ?new)"
    by (rule ext) (rule fs_update_all)
  ultimately show ?thesis
    using assms f unfolding m [symmetric]
    by (simp add: setFeeStructure_def structureRequest_def)
qed


text \<open>
  C6. \<open>setFeeStructure\<close> is an idempotent upsert on the compound key (schoolId, classId,
  feeHeadId, monthYear). On a store that satisfies the uniqueness constraint, a valid
  call leaves exactly one row under the key, with the amount of the call; the same call
  again leaves the store as it is; a call with another amount changes the amount of that
  row in place: still one row under the key, the keys of the store in the same order, the
  rows of every other key untouched, and the constraint still satisfied.
\<close>

theorem setFeeStructure_idempotent_upsert:
  assumes "classId \<noteq> []" "hid \<noteq> []" "monthYear \<noteq> []" "0 \<le> a" "0 \<le> a'"
    and "feeStructuresUnique db"
  shows
    "let k = (schoolId, classId, hid, monthYear);
         row = (\<lambda>x. \<lparr>fs_schoolId = schoolId, fs_classId = classId, fs_feeHeadId = hid,
                       fs_amount = x, fs_monthYear = monthYear\<rparr>);
         first = setFeeStructure schoolId (structureRequest classId hid monthYear a) db;
         again = setFeeStructure schoolId (structureRequest classId hid monthYear a) (snd first);
         changed = setFeeStructure schoolId (structureRequest classId hid monthYear a') (snd again)
     in fst first = Inr (row a) \<and> structuresFor (snd first) k = [row a]
        \<and> fst again = Inr (row a) \<and> structuresFor (snd again) k = [row a]
        \<and> snd again = snd first
        \<and> fst changed = Inr (row a') \<and> structuresFor (snd changed) k = [row a']
        \<and> map fsKey (feeStructures (snd changed)) = map fsKey (feeStructures (snd first))
        \<and> feeStructuresUnique (snd changed)
        \<and> (\<forall>k'. k' \<noteq> k \<longrightarrow> structuresFor (snd changed) k' = structuresFor db k')"
proof -
  let ?k = "(schoolId, classId, hid, monthYear)"
  let ?row = "\<lambda>x. \<lparr>fs_schoolId = schoolId, fs_classId = classId, fs_feeHeadId = hid,
                       fs_amount = x, fs_monthYear = monthYear\<rparr>"
  let ?up = "\<lambda>x rows. upsertOne (\<lambda>s. fsKey s = ?k) (\<lambda>s. ?row x) (?row x) rows"
  let ?rows = "feeStructures db"
  have key: "fsKey (?row x) = ?k" for x by (simp add: fsKey_def)
  have upd: "\<forall>r. fsKey r = ?k \<longrightarrow> (\<lambda>s. ?row x) r = ?row x" for x by simp
  note keys = upsertOne_keys [OF key upd]
  note dist = upsertOne_distinct [OF key upd]
  note rows = upsertOne_rows_for_key [OF key upd]
  note other = upsertOne_other_key [OF key upd]
  from assms(6) have d0: "distinct (map fsKey ?rows)" by (simp add: feeStructuresUnique_def)
  have d1: "distinct (map fsKey (?up a ?rows))" by (rule dist [OF d0])
  have first: "setFeeStructure schoolId (structureRequest classId hid monthYear a) db
      = (Inr (?row a), db\<lparr>feeStructures := ?up a ?rows\<rparr>)"
    by (rule setFeeStructure_valid [OF assms(1-4)])
  have again: "setFeeStructure schoolId (structureRequest classId hid monthYear a)
        (db\<lparr>feeStructures := ?up a ?rows\<rparr>)
      = (Inr (?row a), db\<lparr>feeStructures := ?up a ?rows\<rparr>)"
    using setFeeStructure_valid [OF assms(1-4), of schoolId "db\<lparr>feeStructures := ?up a ?rows\<rparr>"]
      upsertOne_idem [of "\<lambda>s. fsKey s = ?k" "?row a" "\<lambda>s. ?row a" ?rows]
    by (simp add: key)
  have changed: "setFeeStructure schoolId (structureRequest classId hid monthYear a')
        (db\<lparr>feeStructures := ?up a ?rows\<rparr>)
      = (Inr (?row a'), db\<lparr>feeStructures := ?up a' (?up a ?rows)\<rparr>)"
    using setFeeStructure_valid [OF assms(1-3,5), of schoolId "db\<lparr>feeStructures := ?up a ?rows\<rparr>"]
    by simp
  have k_in: "?k \<in> set (map fsKey (?up a ?rows))"
    by (simp add: keys [of a ?rows])
  have same_keys: "map fsKey (?up a' (?up a ?rows)) = map fsKey (?up a ?rows)"
    using k_in by (simp add: keys [of a' "?up a ?rows"])
  have r1: "filter (\<lambda>s. fsKey s = ?k) (?up a ?rows) = [?row a]" by (rule rows [OF d0])
  have r3: "filter (\<lambda>s. fsKey s = ?k) (?up a' (?up a ?rows)) = [?row a']" by (rule rows [OF d1])
  have d3: "distinct (map fsKey (?up a' (?up a ?rows)))" by (rule dist [OF d1])
  have oth: "filter (\<lambda>s. fsKey s = k') (?up a' (?up a ?rows)) = filter (\<lambda>s. fsKey s = k') ?rows"
    if "k' \<noteq> ?k" for k'
    using that by (simp add: other)
  show ?thesis
    unfolding Let_def first again changed snd_conv fst_conv
    using r1 r3 same_keys d3 oth
    by (simp add: structuresFor_def feeStructuresUnique_def)
qed

theorem setFeeStructure_idempotent_upsert_witness:
  "structuresFor
     (snd (setFeeStructure ''T'' (structureRequest ''c1'' ''A'' ''2025-10'' 120)
        (snd (setFeeStructure ''T'' (structureRequest ''c1'' ''A'' ''2025-10'' 100)
           (snd (setFeeStructure ''T'' (structureRequest ''c1'' ''A'' ''2025-10'' 100) ex_db))))))
     (''T'', ''c1'', ''A'', ''2025-10'')
   = [\<lparr>fs_schoolId = ''T'', fs_classId = ''c1'', fs_feeHeadId = ''A'', fs_amount = 120,
       fs_monthYear = ''2025-10''\<rparr>]
   \<and> snd (setFeeStructure ''T'' (structureRequest ''c1'' ''A'' ''2025-10'' 100)
           (snd (setFeeStructure ''T'' (structureRequest ''c1'' ''A'' ''2025-10'' 100) ex_db)))
     = snd (setFeeStructure ''T'' (structureRequest ''c1'' ''A'' ''2025-10'' 100) ex_db)"
proof -
  have h: "''c1'' \<noteq> []" "''A'' \<noteq> []" "''2025-10'' \<noteq> []" "(0::real) \<le> 100" "(0::real) \<le> 120"
    by simp_all
  have u: "feeStructuresUnique ex_db"
    by (simp add: feeStructuresUnique_def ex_db_def fsKey_def)
  note t = setFeeStructure_idempotent_upsert [OF h u, of "''T''", unfolded Let_def]
  from t show ?thesis by blast
qed

section \<open>Properties of the bulk recorders\<close>

lemma attendanceOperations_missing:
  "list_ex missingAttendanceField batch \<Longrightarrow>
   attendanceOperations schoolId userId batch
     = Inl ''Each record must include studentId, date, and status.''"
  by (induction batch) auto

lemma gradeOperations_missing:
  "list_ex missingGradeField batch \<Longrightarrow>
   gradeOperations schoolId batch
     = Inl ''Each grade entry must have studentId, classId, examId, subject, and obtainedMarks.''"
  by (induction batch) auto

text \<open>
  C9. A bulk attendance or bulk grade submission in which some record misses a required
  field fails as a whole and writes nothing: building the list of operations stops at
  that record, before the bulk write is issued, and the store is left as it was (the
  attendance route answers 500, the grade route 400 with the validation message).
\<close>

theorem bulk_missing_field_aborts_batch:
  "(list_ex missingAttendanceField attendanceBatch \<longrightarrow>
      postAttendance schoolId userId attendanceBatch db
        = (Inl (HttpError 500 ''Server error recording attendance.''), db))
   \<and> (list_ex missingGradeField gradeBatch \<longrightarrow>
      postGradesBulk schoolId gradeBatch db
        = (Inl (HttpError 400
             ''Each grade entry must have studentId, classId, examId, subject, and obtainedMarks.''),
           db))"
proof (intro conjI impI)
  assume m: "list_ex missingAttendanceField attendanceBatch"
  then have "attendanceBatch \<noteq> []" by auto
  with attendanceOperations_missing [OF m, of schoolId userId]
  show "postAttendance schoolId userId attendanceBatch db
        = (Inl (HttpError 500 ''Server error recording attendance.''), db)"
    by (simp add: postAttendance_def)
next
  assume m: "list_ex missingGradeField gradeBatch"
  then have "gradeBatch \<noteq> []" by auto
  with gradeOperations_missing [OF m, of schoolId]
  show "postGradesBulk schoolId gradeBatch db
        = (Inl (HttpError 400
             ''Each grade entry must have studentId, classId, examId, subject, and obtainedMarks.''),
           db)"
    by (simp add: postGradesBulk_def)
qed

theorem bulk_missing_field_aborts_batch_witness:
  "postAttendance ''T'' ''u1''
       (ex_attendance @ [\<lparr>ar_studentId = ''s3'', ar_date = None, ar_status = ''Late''\<rparr>]) ex_db
     = (Inl (HttpError 500 ''Server error recording attendance.''), ex_db)
   \<and> postGradesBulk ''T''
       (ex_grades @ [\<lparr>gr_studentId = ''s3'', gr_classId = ''c1'', gr_examId = ''e1'',
                      gr_subject = ''Maths'', gr_obtainedMarks = None, gr_totalMarks = Some 100,
                      gr_remarks = None\<rparr>]) ex_db
     = (Inl (HttpError 400
          ''Each grade entry must have studentId, classId, examId, subject, and obtainedMarks.''),
        ex_db)"
proof -
  let ?a = "ex_attendance @ [\<lparr>ar_studentId = ''s3'', ar_date = None, ar_status = ''Late''\<rparr>]"
  let ?g = "ex_grades @ [\<lparr>gr_studentId = ''s3'', gr_classId = ''c1'', gr_examId = ''e1'',
                      gr_subject = ''Maths'', gr_obtainedMarks = None, gr_totalMarks = Some 100,
                      gr_remarks = None\<rparr>]"
  have a: "list_ex missingAttendanceField ?a" by (simp add: missingAttendanceField_def)
  have g: "list_ex missingGradeField ?g" by (simp add: missingGradeField_def)
  from bulk_missing_field_aborts_batch [of ?a "''T''" "''u1''" ex_db ?g] a g
  show ?thesis by blast
qed

lemma upsertOne_keeps_unmatched:
  "r \<in> set rows \<Longrightarrow> \<not> matches r \<Longrightarrow> r \<in> set (upsertOne matches upd new rows)"
  by (induction rows) auto

lemma upsertOne_new_in:
  "\<forall>r. matches r \<longrightarrow> upd r = new \<Longrightarrow> new \<in> set (upsertOne matches upd new rows)"
  by (induction rows) auto

lemma gradeOperations_map:
  "gradeOperations schoolId batch = Inr ops \<Longrightarrow> ops = map (gradeOperation schoolId) batch"
  by (induction batch arbitrary: ops) (auto split: if_splits sum.splits)

lemma gradeMatches_key:
  "gradeMatches (gradeOperation schoolId g) r \<longleftrightarrow> gradeKey r = gradeRecordKey schoolId g"
  by (auto simp: gradeMatches_def gradeOperation_def gradeKey_def gradeRecordKey_def)

lemma grade_update_matched:
  "gradeMatches op r \<Longrightarrow>
   r\<lparr>g_classId := gs_classId op, g_totalMarks := gs_totalMarks op,
     g_obtainedMarks := gs_obtainedMarks op, g_remarks := gs_remarks op\<rparr> = gradeRowOf op"
  by (cases r) (simp add: gradeMatches_def gradeRowOf_def)

lemma applyGradeOp_new_in: "gradeRowOf op \<in> set (applyGradeOp op rows)"
  unfolding applyGradeOp_def gradeRowOf_def [symmetric]
  by (rule upsertOne_new_in) (simp add: grade_update_matched)

lemma applyGradeOp_keeps:
  "r \<in> set rows \<Longrightarrow> \<not> gradeMatches op r \<Longrightarrow> r \<in> set (applyGradeOp op rows)"
  unfolding applyGradeOp_def by (rule upsertOne_keeps_unmatched)

lemma gradeBulkWrite_append:
  "gradeBulkWrite (xs @ ys) rows = (True, rows') \<Longrightarrow>
   \<exists>r1. gradeBulkWrite xs rows = (True, r1) \<and> gradeBulkWrite ys r1 = (True, rows')"
  by (induction xs arbitrary: rows) (auto split: if_splits)

lemma gradeBulkWrite_keeps:
  "gradeBulkWrite ops rows = (True, rows') \<Longrightarrow> r \<in> set rows \<Longrightarrow>
   \<forall>op \<in> set ops. \<not> gradeMatches op r \<Longrightarrow> r \<in> set rows'"
proof (induction ops arbitrary: rows)
  case Nil
  then show ?case by simp
next
  case (Cons op ops)
  from Cons.prems(1) have run: "gradeBulkWrite ops (applyGradeOp op rows) = (True, rows')"
    by (simp split: if_splits)
  from Cons.prems(2,3) have "r \<in> set (applyGradeOp op rows)"
    by (simp add: applyGradeOp_keeps)
  from Cons.IH [OF run this] Cons.prems(3) show ?case by simp
qed

text \<open>
  C10. In a bulk grade submission that is saved, a record whose \<open>totalMarks\<close> is absent,
  null or 0 is stored with \<open>totalMarks = 100\<close>, and a record with any other
  \<open>totalMarks\<close> is stored with that value: the store holds a row under the record's key
  with the record's class and obtained marks and that total. (A record followed in the
  same batch by another one of the same key is overwritten by it; the statement is for
  the last record of each key.)
\<close>

theorem grades_totalMarks_default:
  assumes "postGradesBulk schoolId (pre @ g # post) db = (Inr msg, db')"
    and "\<forall>h \<in> set post. gradeRecordKey schoolId h \<noteq> gradeRecordKey schoolId g"
  shows "\<exists>row \<in> set (grades db').
           gradeKey row = gradeRecordKey schoolId g
           \<and> g_classId row = gr_classId g
           \<and> gr_obtainedMarks g = Some (g_obtainedMarks row)
           \<and> (gr_totalMarks g = None \<or> gr_totalMarks g = Some 0 \<longrightarrow> g_totalMarks row = 100)
           \<and> (\<forall>t. gr_totalMarks g = Some t \<and> t \<noteq> 0 \<longrightarrow> g_totalMarks row = t)"
proof -
  let ?batch = "pre @ g # post"
  from assms(1) obtain ops where ops: "gradeOperations schoolId ?batch = Inr ops"
    by (cases "gradeOperations schoolId ?batch") (auto simp: postGradesBulk_def)
  from gradeOperations_map [OF this] have opsmap: "ops = map (gradeOperation schoolId) pre
      @ gradeOperation schoolId g # map (gradeOperation schoolId) post"
    by simp
  have valid: "\<not> missingGradeField g"
  proof
    assume "missingGradeField g"
    then have "list_ex missingGradeField ?batch" by simp
    from gradeOperations_missing [OF this, of schoolId] ops show False by simp
  qed
  from assms(1) ops have run: "gradeBulkWrite ops (grades db) = (True, grades db')"
    by (auto simp: postGradesBulk_def split: prod.splits bool.splits)
  let ?op = "gradeOperation schoolId g"
  from run obtain r1 where
    "gradeBulkWrite (?op # map (gradeOperation schoolId) post) r1 = (True, grades db')"
    unfolding opsmap by (blast dest: gradeBulkWrite_append)
  then have rest: "gradeBulkWrite (map (gradeOperation schoolId) post) (applyGradeOp ?op r1)
      = (True, grades db')"
    by (simp split: if_splits)
  let ?row = "gradeRowOf ?op"
  have in1: "?row \<in> set (applyGradeOp ?op r1)" by (rule applyGradeOp_new_in)
  have key: "gradeKey ?row = gradeRecordKey schoolId g"
    by (simp add: gradeRowOf_def gradeOperation_def gradeKey_def gradeRecordKey_def)
  have "\<forall>op \<in> set (map (gradeOperation schoolId) post). \<not> gradeMatches op ?row"
    using assms(2) by (auto simp: gradeMatches_key key)
  from gradeBulkWrite_keeps [OF rest in1 this] have "?row \<in> set (grades db')" .
  moreover have "g_classId ?row = gr_classId g"
    by (simp add: gradeRowOf_def gradeOperation_def)
  moreover from valid have "gr_obtainedMarks g = Some (g_obtainedMarks ?row)"
    by (auto simp: gradeRowOf_def gradeOperation_def missingGradeField_def)
  moreover have "gr_totalMarks g = None \<or> gr_totalMarks g = Some 0 \<longrightarrow> g_totalMarks ?row = 100"
    by (auto simp: gradeRowOf_def gradeOperation_def)
  moreover have "\<forall>t. gr_totalMarks g = Some t \<and> t \<noteq> 0 \<longrightarrow> g_totalMarks ?row = t"
    by (auto simp: gradeRowOf_def gradeOperation_def)
  ultimately show ?thesis using key by blast
qed

lemma ex_grades_saved:
  "postGradesBulk ''T'' ex_grades ex_db =
     (Inr ''Grades saved successfully.'',
      ex_db\<lparr>grades :=
        [\<lparr>g_schoolId = ''T'', g_studentId = ''s1'', g_classId = ''c1'', g_examId = ''e1'',
          g_subject = ''Maths'', g_totalMarks = 100, g_obtainedMarks = 40, g_remarks = []\<rparr>,
         \<lparr>g_schoolId = ''T'', g_studentId = ''s1'', g_classId = ''c1'', g_examId = ''e1'',
          g_subject = ''English'', g_totalMarks = 50, g_obtainedMarks = 35, g_remarks = []\<rparr>,
         \<lparr>g_schoolId = ''T'', g_studentId = ''s2'', g_classId = ''c1'', g_examId = ''e1'',
          g_subject = ''Maths'', g_totalMarks = 100, g_obtainedMarks = 71,
          g_remarks = ''Good''\<rparr>]\<rparr>)"
  by (simp add: postGradesBulk_def ex_grades_def missingGradeField_def gradeOperation_def
      gradeMatches_def applyGradeOp_def ex_db_def)

theorem grades_totalMarks_default_witness:
  "(\<exists>row \<in> set (grades (snd (postGradesBulk ''T'' ex_grades ex_db))).
      gradeKey row = (''T'', ''s1'', ''e1'', ''Maths'') \<and> g_totalMarks row = 100)
   \<and> (\<exists>row \<in> set (grades (snd (postGradesBulk ''T'' ex_grades ex_db))).
      gradeKey row = (''T'', ''s1'', ''e1'', ''English'') \<and> g_totalMarks row = 50)
   \<and> (\<exists>row \<in> set (grades (snd (postGradesBulk ''T'' ex_grades ex_db))).
      gradeKey row = (''T'', ''s2'', ''e1'', ''Maths'') \<and> g_totalMarks row = 100)"
proof -
  let ?g1 = "\<lparr>gr_studentId = ''s1'', gr_classId = ''c1'', gr_examId = ''e1'', gr_subject = ''Maths'',
       gr_obtainedMarks = Some 40, gr_totalMarks = Some 0, gr_remarks = None\<rparr>"
  let ?g2 = "\<lparr>gr_studentId = ''s1'', gr_classId = ''c1'', gr_examId = ''e1'', gr_subject = ''English'',
       gr_obtainedMarks = Some 35, gr_totalMarks = Some 50, gr_remarks = None\<rparr>"
  let ?g3 = "\<lparr>gr_studentId = ''s2'', gr_classId = ''c1'', gr_examId = ''e1'', gr_subject = ''Maths'',
       gr_obtainedMarks = Some 71, gr_totalMarks = None, gr_remarks = Some ''Good''\<rparr>"
  let ?db' = "snd (postGradesBulk ''T'' ex_grades ex_db)"
  have run1: "postGradesBulk ''T'' ([] @ ?g1 # [?g2, ?g3]) ex_db
      = (Inr ''Grades saved successfully.'', ?db')"
    using ex_grades_saved by (simp add: ex_grades_def)
  have run2: "postGradesBulk ''T'' ([?g1] @ ?g2 # [?g3]) ex_db
      = (Inr ''Grades saved successfully.'', ?db')"
    using ex_grades_saved by (simp add: ex_grades_def)
  have last1: "\<forall>h \<in> set [?g2, ?g3]. gradeRecordKey ''T'' h \<noteq> gradeRecordKey ''T'' ?g1"
    by (simp add: gradeRecordKey_def)
  have last2: "\<forall>h \<in> set [?g3]. gradeRecordKey ''T'' h \<noteq> gradeRecordKey ''T'' ?g2"
    by (simp add: gradeRecordKey_def)
  have run3: "postGradesBulk ''T'' ([?g1, ?g2] @ ?g3 # []) ex_db
      = (Inr ''Grades saved successfully.'', ?db')"
    using ex_grades_saved by (simp add: ex_grades_def)
  have last3: "\<forall>h \<in> set []. gradeRecordKey ''T'' h \<noteq> gradeRecordKey ''T'' ?g3"
    by simp
  from grades_totalMarks_default [OF run1 last1]
  have "\<exists>row \<in> set (grades ?db').
      gradeKey row = (''T'', ''s1'', ''e1'', ''Maths'') \<and> g_totalMarks row = 100"
    by (auto simp: gradeRecordKey_def)
  moreover from grades_totalMarks_default [OF run2 last2]
  have "\<exists>row \<in> set (grades ?db').
      gradeKey row = (''T'', ''s1'', ''e1'', ''English'') \<and> g_totalMarks row = 50"
    by (auto simp: gradeRecordKey_def)
  moreover from grades_totalMarks_default [OF run3 last3]
  have "\<exists>row \<in> set (grades ?db').
      gradeKey row = (''T'', ''s2'', ''e1'', ''Maths'') \<and> g_totalMarks row = 100"
    by (auto simp: gradeRecordKey_def)
  ultimately show ?thesis by blast
qed

















section \<open>Properties of tenant registration\<close>










end
